theory Spec2Isabelle
  imports Main
begin

unbundle bit_operations_syntax

section \<open>Text, bytes and the standard-library functions the crawler relies on\<close>

text \<open>
  A Python \<open>str\<close> is modelled as a \<open>string\<close>: a list of characters, each standing for
  the code point of the same number. The model therefore covers text whose code points
  lie below 256; \<open>length\<close> counts code points, as Python's \<open>len\<close> does. The
  predicates below are the Unicode classes of Python 3 restricted to that range.
\<close>

datatype error = ValueError | OperationalError

definition code :: "char \<Rightarrow> nat" where
  "code c = of_char c"

definition isspace :: "char \<Rightarrow> bool" where
  \<comment> \<open>\<open>str.isspace\<close>, the class \<open>\s\<close> of \<open>re\<close> and the characters \<open>str.strip()\<close> removes\<close>
  "isspace c = (let n = code c in
     (9 \<le> n \<and> n \<le> 13) \<or> (28 \<le> n \<and> n \<le> 32) \<or> n = 133 \<or> n = 160)"

definition isdigit :: "char \<Rightarrow> bool" where
  \<comment> \<open>the ASCII digits: \<open>\d\<close> of \<open>re\<close> below 256\<close>
  "isdigit c = (let n = code c in 48 \<le> n \<and> n \<le> 57)"

definition isupper_ascii :: "char \<Rightarrow> bool" where
  "isupper_ascii c = (let n = code c in 65 \<le> n \<and> n \<le> 90)"

definition islower_ascii :: "char \<Rightarrow> bool" where
  "islower_ascii c = (let n = code c in 97 \<le> n \<and> n \<le> 122)"

definition isalpha_ascii :: "char \<Rightarrow> bool" where
  "isalpha_ascii c = (isupper_ascii c \<or> islower_ascii c)"

definition isword :: "char \<Rightarrow> bool" where
  \<comment> \<open>the class \<open>\w\<close> of \<open>re\<close> on \<open>str\<close> patterns: alphanumeric or underscore\<close>
  "isword c = (let n = code c in
     isalpha_ascii c \<or> isdigit c \<or> n = 95 \<or>
     n \<in> {170, 178, 179, 181, 185, 186, 188, 189, 190} \<or>
     (192 \<le> n \<and> n \<noteq> 215 \<and> n \<noteq> 247))"

definition lower_char :: "char \<Rightarrow> char" where
  "lower_char c = (let n = code c in
     if (65 \<le> n \<and> n \<le> 90) \<or> (192 \<le> n \<and> n \<le> 222 \<and> n \<noteq> 215)
     then char_of (n + 32) else c)"

definition lower :: "string \<Rightarrow> string" where
  \<comment> \<open>\<open>str.lower()\<close>\<close>
  "lower s = map lower_char s"

definition lstrip :: "(char \<Rightarrow> bool) \<Rightarrow> string \<Rightarrow> string" where
  "lstrip p s = dropWhile p s"

definition rstrip :: "(char \<Rightarrow> bool) \<Rightarrow> string \<Rightarrow> string" where
  "rstrip p s = rev (dropWhile p (rev s))"

definition strip :: "string \<Rightarrow> string" where
  \<comment> \<open>\<open>str.strip()\<close> without argument\<close>
  "strip s = rstrip isspace (lstrip isspace s)"

definition startswith :: "string \<Rightarrow> string \<Rightarrow> bool" where
  "startswith s p = (take (length p) s = p)"

definition endswith :: "string \<Rightarrow> string \<Rightarrow> bool" where
  "endswith s e = (length e \<le> length s \<and> drop (length s - length e) s = e)"

fun contains :: "string \<Rightarrow> string \<Rightarrow> bool" where
  \<comment> \<open>\<open>sub in s\<close>\<close>
  "contains [] sub = (sub = [])"
| "contains (c # cs) sub = (startswith (c # cs) sub \<or> contains cs sub)"

fun split_on :: "char \<Rightarrow> string \<Rightarrow> string list" where
  \<comment> \<open>\<open>s.split(sep)\<close> for a separator of one character\<close>
  "split_on sep [] = [[]]"
| "split_on sep (c # cs) =
     (if c = sep then [] # split_on sep cs
      else (case split_on sep cs of
              [] \<Rightarrow> [[c]]
            | w # ws \<Rightarrow> (c # w) # ws))"

fun join :: "string \<Rightarrow> string list \<Rightarrow> string" where
  \<comment> \<open>\<open>sep.join(xs)\<close>\<close>
  "join sep [] = []"
| "join sep [x] = x"
| "join sep (x # y # ys) = x @ sep @ join sep (y # ys)"

definition before :: "char \<Rightarrow> string \<Rightarrow> string" where
  \<comment> \<open>the text before the first \<open>sep\<close>: \<open>s.partition(sep)[0]\<close>\<close>
  "before sep s = takeWhile (\<lambda>c. c \<noteq> sep) s"

definition after :: "char \<Rightarrow> string \<Rightarrow> string" where
  \<comment> \<open>the text after the first \<open>sep\<close>: \<open>s.partition(sep)[2]\<close>, empty when \<open>sep\<close> is absent\<close>
  "after sep s = drop 1 (dropWhile (\<lambda>c. c \<noteq> sep) s)"

fun words :: "string \<Rightarrow> string list" where
  \<comment> \<open>\<open>str.split()\<close> without argument: the maximal runs of non-whitespace\<close>
  "words [] = []"
| "words (c # cs) =
     (if isspace c then words cs
      else (case cs of
              [] \<Rightarrow> [[c]]
            | d # ds \<Rightarrow> if isspace d then [c] # words cs
                       else (case words cs of
                               [] \<Rightarrow> [[c]]
                             | w # ws \<Rightarrow> (c # w) # ws)))"

definition encode :: "string \<Rightarrow> int list" where
  \<comment> \<open>\<open>str.encode()\<close>: the UTF-8 bytes of the text\<close>
  "encode s = concat (map (\<lambda>c. let n = int (code c) in
      if n < 128 then [n] else [192 + n div 64, 128 + n mod 64]) s)"

subsection \<open>\<open>hashlib.md5\<close>\<close>

text \<open>
  MD5 as RFC 1321 defines it, on 32-bit words kept as integers with the wrap-around
  written out (\<open>u32\<close>). \<open>md5_hexdigest\<close> is \<open>hashlib.md5(bs).hexdigest()\<close>.
\<close>

definition md5_s :: "nat list" where
  "md5_s = [7, 12, 17, 22, 7, 12, 17, 22, 7, 12, 17, 22, 7, 12, 17, 22,
            5, 9, 14, 20, 5, 9, 14, 20, 5, 9, 14, 20, 5, 9, 14, 20,
            4, 11, 16, 23, 4, 11, 16, 23, 4, 11, 16, 23, 4, 11, 16, 23,
            6, 10, 15, 21, 6, 10, 15, 21, 6, 10, 15, 21, 6, 10, 15, 21]"

definition md5_K :: "int list" where
  "md5_K = [0xd76aa478, 0xe8c7b756, 0x242070db, 0xc1bdceee,
            0xf57c0faf, 0x4787c62a, 0xa8304613, 0xfd469501,
            0x698098d8, 0x8b44f7af, 0xffff5bb1, 0x895cd7be,
            0x6b901122, 0xfd987193, 0xa679438e, 0x49b40821,
            0xf61e2562, 0xc040b340, 0x265e5a51, 0xe9b6c7aa,
            0xd62f105d, 0x02441453, 0xd8a1e681, 0xe7d3fbc8,
            0x21e1cde6, 0xc33707d6, 0xf4d50d87, 0x455a14ed,
            0xa9e3e905, 0xfcefa3f8, 0x676f02d9, 0x8d2a4c8a,
            0xfffa3942, 0x8771f681, 0x6d9d6122, 0xfde5380c,
            0xa4beea44, 0x4bdecfa9, 0xf6bb4b60, 0xbebfbc70,
            0x289b7ec6, 0xeaa127fa, 0xd4ef3085, 0x04881d05,
            0xd9d4d039, 0xe6db99e5, 0x1fa27cf8, 0xc4ac5665,
            0xf4292244, 0x432aff97, 0xab9423a7, 0xfc93a039,
            0x655b59c3, 0x8f0ccc92, 0xffeff47d, 0x85845dd1,
            0x6fa87e4f, 0xfe2ce6e0, 0xa3014314, 0x4e0811a1,
            0xf7537e82, 0xbd3af235, 0x2ad7d2bb, 0xeb86d391]"

definition u32 :: "int \<Rightarrow> int" where
  "u32 x = x mod 2 ^ 32"

definition not32 :: "int \<Rightarrow> int" where
  \<comment> \<open>bitwise complement of a 32-bit value\<close>
  "not32 x = 0xffffffff - x"

definition rotl32 :: "int \<Rightarrow> nat \<Rightarrow> int" where
  \<comment> \<open>rotate a 32-bit value left by \<open>n\<close> bits, \<open>0 < n < 32\<close>\<close>
  "rotl32 x n = u32 (x * 2 ^ n) + x div 2 ^ (32 - n)"

definition md5_step ::
  "int list \<Rightarrow> int \<times> int \<times> int \<times> int \<Rightarrow> nat \<Rightarrow> int \<times> int \<times> int \<times> int" where
  "md5_step m st i = (case st of (a, b, c, d) \<Rightarrow>
     let (f, g) =
       (if i < 16 then ((b AND c) OR (not32 b AND d), i)
        else if i < 32 then ((d AND b) OR (not32 d AND c), (5 * i + 1) mod 16)
        else if i < 48 then (b XOR c XOR d, (3 * i + 5) mod 16)
        else (c XOR (b OR not32 d), (7 * i) mod 16));
       f' = u32 (f + a + md5_K ! i + m ! g)
     in (d, u32 (b + rotl32 f' (md5_s ! i)), b, c))"

fun words_of :: "int list \<Rightarrow> int list" where
  \<comment> \<open>the little-endian 32-bit words of a block\<close>
  "words_of (b0 # b1 # b2 # b3 # bs) =
     (b0 + 256 * (b1 + 256 * (b2 + 256 * b3))) # words_of bs"
| "words_of _ = []"

definition md5_block ::
  "int \<times> int \<times> int \<times> int \<Rightarrow> int list \<Rightarrow> int \<times> int \<times> int \<times> int" where
  "md5_block st blk = (case st of (a0, b0, c0, d0) \<Rightarrow>
     (case foldl (md5_step (words_of blk)) st [0..<64] of (a, b, c, d) \<Rightarrow>
        (u32 (a0 + a), u32 (b0 + b), u32 (c0 + c), u32 (d0 + d))))"

fun md5_blocks ::
  "nat \<Rightarrow> int \<times> int \<times> int \<times> int \<Rightarrow> int list \<Rightarrow> int \<times> int \<times> int \<times> int" where
  "md5_blocks 0 st bs = st"
| "md5_blocks (Suc n) st bs = md5_blocks n (md5_block st (take 64 bs)) (drop 64 bs)"

fun bytes_le :: "nat \<Rightarrow> int \<Rightarrow> int list" where
  \<comment> \<open>the \<open>k\<close> low bytes of \<open>v\<close>, least significant first\<close>
  "bytes_le 0 v = []"
| "bytes_le (Suc k) v = (v mod 256) # bytes_le k (v div 256)"

definition md5_pad :: "int list \<Rightarrow> int list" where
  "md5_pad msg = msg @ [0x80] @ replicate (nat ((55 - int (length msg)) mod 64)) 0
                  @ bytes_le 8 ((8 * int (length msg)) mod 2 ^ 64)"

definition md5_digest :: "int list \<Rightarrow> int list" where
  "md5_digest msg = (let p = md5_pad msg in
     case md5_blocks (length p div 64) (0x67452301, 0xefcdab89, 0x98badcfe, 0x10325476) p
     of (a, b, c, d) \<Rightarrow> concat (map (bytes_le 4) [a, b, c, d]))"

definition hex_digit :: "int \<Rightarrow> char" where
  "hex_digit n = ''0123456789abcdef'' ! nat n"

definition md5_hexdigest :: "int list \<Rightarrow> string" where
  "md5_hexdigest msg =
     concat (map (\<lambda>b. [hex_digit (b div 16), hex_digit (b mod 16)]) (md5_digest msg))"

subsection \<open>\<open>urllib.parse\<close>\<close>

text \<open>
  \<open>urlsplit\<close>, \<open>urlparse\<close>, \<open>urlunsplit\<close> and \<open>urlunparse\<close> follow the CPython 3.11
  library line by line. \<open>urlsplit\<close> raises \<open>ValueError\<close> for a host in square brackets
  that is not an IPv6 or IPvFuture literal; that check is \<open>check_bracketed_host\<close>, with
  the textual validation of \<open>ipaddress\<close> behind it.
\<close>

definition ishex :: "char \<Rightarrow> bool" where
  "ishex c = (let n = code c in
     isdigit c \<or> (65 \<le> n \<and> n \<le> 70) \<or> (97 \<le> n \<and> n \<le> 102))"

fun decimal :: "string \<Rightarrow> nat" where
  \<comment> \<open>\<open>int(s, 10)\<close> on a string of ASCII digits, read from the left\<close>
  "decimal s = foldl (\<lambda>v c. 10 * v + (code c - 48)) 0 s"

definition parse_octet_ok :: "string \<Rightarrow> bool" where
  \<comment> \<open>\<open>IPv4Address._parse_octet\<close> does not raise\<close>
  "parse_octet_ok s =
     (s \<noteq> [] \<and> list_all isdigit s \<and> length s \<le> 3 \<and>
      \<not> (s \<noteq> ''0'' \<and> hd s = CHR ''0'') \<and> decimal s \<le> 255)"

definition ipv4_ok :: "string \<Rightarrow> bool" where
  \<comment> \<open>\<open>ipaddress.IPv4Address(s)\<close> does not raise\<close>
  "ipv4_ok s =
     (CHR ''/'' \<notin> set s \<and> s \<noteq> [] \<and>
      (let octets = split_on (CHR ''.'') s in
       length octets = 4 \<and> list_all parse_octet_ok octets))"

definition parse_hextet_ok :: "string \<Rightarrow> bool" where
  \<comment> \<open>\<open>IPv6Address._parse_hextet\<close> does not raise (\<open>int('', 16)\<close> does)\<close>
  "parse_hextet_ok s = (list_all ishex s \<and> length s \<le> 4 \<and> s \<noteq> [])"

definition ipv6_groups_ok :: "string list \<Rightarrow> bool" where
  \<comment> \<open>\<open>IPv6Address._ip_int_from_string\<close> from the check of the number of parts on\<close>
  "ipv6_groups_ok parts =
     (let n = length parts;
          skips = filter (\<lambda>i. parts ! i = []) [1..<n - 1]
      in n \<le> 9 \<and>
         (case skips of
            [] \<Rightarrow> n = 8 \<and> list_all parse_hextet_ok parts
          | [i] \<Rightarrow>
              (let hi0 = i; lo0 = n - i - 1;
                   hi = (if hd parts = [] then hi0 - 1 else hi0);
                   lo = (if last parts = [] then lo0 - 1 else lo0)
               in \<not> (hd parts = [] \<and> hi \<noteq> 0) \<and>
                  \<not> (last parts = [] \<and> lo \<noteq> 0) \<and>
                  hi + lo < 8 \<and>
                  list_all parse_hextet_ok (take hi parts) \<and>
                  list_all parse_hextet_ok (drop (n - lo) parts))
          | _ \<Rightarrow> False))"

definition ipv6_ok :: "string \<Rightarrow> bool" where
  \<comment> \<open>\<open>ipaddress.IPv6Address(s)\<close> does not raise\<close>
  "ipv6_ok s =
     (CHR ''/'' \<notin> set s \<and>
      (let addr = before (CHR ''%'') s; scope = after (CHR ''%'') s
       in \<not> (CHR ''%'' \<in> set s \<and> (scope = [] \<or> CHR ''%'' \<in> set scope)) \<and>
          addr \<noteq> [] \<and>
          (let parts = split_on (CHR '':'') addr
           in 3 \<le> length parts \<and>
              (if CHR ''.'' \<in> set (last parts)
               then ipv4_ok (last parts) \<and> ipv6_groups_ok (butlast parts @ [''0'', ''0''])
               else ipv6_groups_ok parts))))"

definition ipvfuture_ok :: "string \<Rightarrow> bool" where
  \<comment> \<open>\<open>re.match(r"\Av[a-fA-F0-9]+\..+\Z", hostname)\<close> for a hostname that starts with \<open>v\<close>\<close>
  "ipvfuture_ok h =
     (let digits = takeWhile ishex (tl h); rest = dropWhile ishex (tl h)
      in digits \<noteq> [] \<and> take 1 rest = ''.'' \<and> tl rest \<noteq> [] \<and> CHR 0x0A \<notin> set (tl rest))"

definition check_bracketed_host :: "string \<Rightarrow> bool" where
  \<comment> \<open>\<open>_check_bracketed_host\<close> does not raise\<close>
  "check_bracketed_host hostname =
     (if startswith hostname ''v'' then ipvfuture_ok hostname
      else (ipv4_ok hostname \<or> ipv6_ok hostname) \<and> \<not> ipv4_ok hostname)"

definition c0_control_or_space :: "char \<Rightarrow> bool" where
  "c0_control_or_space c = (code c \<le> 32)"

definition unsafe_url_byte :: "char \<Rightarrow> bool" where
  \<comment> \<open>tab, carriage return and line feed\<close>
  "unsafe_url_byte c = (code c = 9 \<or> code c = 13 \<or> code c = 10)"

definition scheme_char :: "char \<Rightarrow> bool" where
  "scheme_char c = (isalpha_ascii c \<or> isdigit c \<or> c \<in> {CHR ''+'', CHR ''-'', CHR ''.''})"

definition uses_netloc :: "string list" where
  "uses_netloc = ['''', ''ftp'', ''http'', ''gopher'', ''nntp'', ''telnet'',
                  ''imap'', ''wais'', ''file'', ''mms'', ''https'', ''shttp'',
                  ''snews'', ''prospero'', ''rtsp'', ''rtsps'', ''rtspu'', ''rsync'',
                  ''svn'', ''svn+ssh'', ''sftp'', ''nfs'', ''git'', ''git+ssh'',
                  ''ws'', ''wss'']"

definition uses_params :: "string list" where
  "uses_params = ['''', ''ftp'', ''hdl'', ''prospero'', ''http'', ''imap'',
                  ''https'', ''shttp'', ''rtsp'', ''rtsps'', ''rtspu'', ''sip'',
                  ''sips'', ''mms'', ''sftp'', ''tel'']"

definition split_scheme :: "string \<Rightarrow> string \<times> string" where
  \<comment> \<open>the scheme detection of \<open>urlsplit\<close>: \<open>i = url.find(':')\<close> and what follows\<close>
  "split_scheme url =
     (let pre = before (CHR '':'') url in
      if CHR '':'' \<in> set url \<and> pre \<noteq> [] \<and> isalpha_ascii (hd url) \<and> list_all scheme_char pre
      then (lower pre, after (CHR '':'') url)
      else ([], url))"

definition netloc_delim :: "char \<Rightarrow> bool" where
  "netloc_delim c = (c \<in> {CHR ''/'', CHR ''?'', CHR ''#''})"

definition splitnetloc :: "string \<Rightarrow> string \<times> string" where
  \<comment> \<open>\<open>_splitnetloc(url, 2)\<close>, given the text after the two slashes\<close>
  "splitnetloc url = (takeWhile (\<lambda>c. \<not> netloc_delim c) url, dropWhile (\<lambda>c. \<not> netloc_delim c) url)"

definition netloc_ok :: "string \<Rightarrow> bool" where
  \<comment> \<open>the bracket checks of \<open>urlsplit\<close> pass\<close>
  "netloc_ok netloc =
     (let lb = CHR ''['' \<in> set netloc; rb = CHR '']'' \<in> set netloc in
      \<not> ((lb \<and> \<not> rb) \<or> (rb \<and> \<not> lb)) \<and>
      (lb \<and> rb \<longrightarrow> check_bracketed_host (before (CHR '']'') (after (CHR ''['') netloc))))"

record split_result =
  scheme :: string
  netloc :: string
  path :: string
  query :: string
  fragment :: string

record parse_result = split_result +
  params :: string

definition urlsplit :: "string \<Rightarrow> error + split_result" where
  "urlsplit url0 =
     (let url1 = filter (\<lambda>c. \<not> unsafe_url_byte c) (lstrip c0_control_or_space url0);
          (sch, url2) = split_scheme url1;
          (nl, url3) = (if take 2 url2 = ''//'' then splitnetloc (drop 2 url2) else ([], url2))
      in if \<not> netloc_ok nl then Inl ValueError
         else
           let url4 = before (CHR ''#'') url3; frag = after (CHR ''#'') url3
           in Inr \<lparr> scheme = sch, netloc = nl, path = before (CHR ''?'') url4,
                    query = after (CHR ''?'') url4, fragment = frag \<rparr>)"

definition splitparams :: "string \<Rightarrow> string \<times> string" where
  \<comment> \<open>\<open>_splitparams\<close>: a semicolon counts only in the last path segment\<close>
  "splitparams url =
     (let seg = rev (takeWhile (\<lambda>c. c \<noteq> CHR ''/'') (rev url));
          dir = take (length url - length seg) url
      in if CHR ''/'' \<in> set url \<and> CHR '';'' \<notin> set seg then (url, [])
         else if CHR ''/'' \<in> set url then (dir @ before (CHR '';'') seg, after (CHR '';'') seg)
         else (before (CHR '';'') url, after (CHR '';'') url))"

definition urlparse :: "string \<Rightarrow> error + parse_result" where
  "urlparse url =
     (case urlsplit url of
        Inl e \<Rightarrow> Inl e
      | Inr r \<Rightarrow>
          if scheme r \<in> set uses_params \<and> CHR '';'' \<in> set (path r)
          then (case splitparams (path r) of (p, ps) \<Rightarrow>
                  Inr \<lparr> scheme = scheme r, netloc = netloc r, path = p, query = query r,
                         fragment = fragment r, params = ps \<rparr>)
          else Inr \<lparr> scheme = scheme r, netloc = netloc r, path = path r, query = query r,
                      fragment = fragment r, params = [] \<rparr>)"

definition urlunsplit :: "split_result \<Rightarrow> string" where
  "urlunsplit r =
     (let url = path r;
          url = (if netloc r \<noteq> [] \<or> (scheme r \<noteq> [] \<and> scheme r \<in> set uses_netloc)
                    \<or> take 2 url = ''//''
                 then ''//'' @ netloc r @ (if url \<noteq> [] \<and> take 1 url \<noteq> ''/'' then ''/'' @ url else url)
                 else url);
          url = (if scheme r \<noteq> [] then scheme r @ '':'' @ url else url);
          url = (if query r \<noteq> [] then url @ ''?'' @ query r else url);
          url = (if fragment r \<noteq> [] then url @ ''#'' @ fragment r else url)
      in url)"

definition urlunparse :: "parse_result \<Rightarrow> string" where
  "urlunparse r =
     urlunsplit \<lparr> scheme = scheme r, netloc = netloc r,
                  path = (if params r \<noteq> [] then path r @ '';'' @ params r else path r),
                  query = query r, fragment = fragment r \<rparr>"

subsection \<open>\<open>re\<close>: the regular expressions the code uses\<close>

text \<open>
  The patterns of the code have no back-references or look-around, so whether one matches
  is membership in a regular language, decided here by derivatives. A character class is
  a predicate; \<open>re.IGNORECASE\<close> is part of the predicates.
\<close>

datatype rexp =
    Fail
  | Empty
  | Class "char \<Rightarrow> bool"
  | Alt rexp rexp
  | Seq rexp rexp
  | Star rexp

primrec nullable :: "rexp \<Rightarrow> bool" where
  "nullable Fail = False"
| "nullable Empty = True"
| "nullable (Class p) = False"
| "nullable (Alt r s) = (nullable r \<or> nullable s)"
| "nullable (Seq r s) = (nullable r \<and> nullable s)"
| "nullable (Star r) = True"

fun alt :: "rexp \<Rightarrow> rexp \<Rightarrow> rexp" where
  \<comment> \<open>\<open>Alt\<close> without a branch that cannot match\<close>
  "alt Fail s = s"
| "alt r Fail = r"
| "alt r s = Alt r s"

fun seq :: "rexp \<Rightarrow> rexp \<Rightarrow> rexp" where
  \<comment> \<open>\<open>Seq\<close> without a part that cannot match or matches only the empty text\<close>
  "seq Fail s = Fail"
| "seq Empty s = s"
| "seq r s = Seq r s"

primrec deriv :: "char \<Rightarrow> rexp \<Rightarrow> rexp" where
  \<comment> \<open>what is left to match after the character \<open>c\<close>\<close>
  "deriv c Fail = Fail"
| "deriv c Empty = Fail"
| "deriv c (Class p) = (if p c then Empty else Fail)"
| "deriv c (Alt r s) = alt (deriv c r) (deriv c s)"
| "deriv c (Seq r s) =
     (if nullable r then alt (seq (deriv c r) s) (deriv c s) else seq (deriv c r) s)"
| "deriv c (Star r) = seq (deriv c r) (Star r)"

definition fullmatch :: "rexp \<Rightarrow> string \<Rightarrow> bool" where
  "fullmatch r s = nullable (foldl (\<lambda>r c. deriv c r) r s)"

definition match_to_dollar :: "rexp \<Rightarrow> string \<Rightarrow> bool" where
  \<comment> \<open>\<open>re.match\<close> of a pattern that ends in \<open>$\<close>: the end of the text, or just before a
      line feed that ends the text\<close>
  "match_to_dollar r s =
     (fullmatch r s \<or> (s \<noteq> [] \<and> last s = CHR 0x0A \<and> fullmatch r (butlast s)))"

definition optional :: "rexp \<Rightarrow> rexp" where
  "optional r = Alt r Empty"

definition one_or_more :: "rexp \<Rightarrow> rexp" where
  "one_or_more r = Seq r (Star r)"

primrec at_most :: "nat \<Rightarrow> rexp \<Rightarrow> rexp" where
  \<comment> \<open>\<open>r{0,n}\<close>\<close>
  "at_most 0 r = Empty"
| "at_most (Suc n) r = optional (Seq r (at_most n r))"

primrec exactly :: "nat \<Rightarrow> rexp \<Rightarrow> rexp" where
  \<comment> \<open>\<open>r{n}\<close>\<close>
  "exactly 0 r = Empty"
| "exactly (Suc n) r = Seq r (exactly n r)"

definition between :: "nat \<Rightarrow> nat \<Rightarrow> rexp \<Rightarrow> rexp" where
  \<comment> \<open>\<open>r{m,n}\<close>\<close>
  "between m n r = Seq (exactly m r) (at_most (n - m) r)"

definition lit :: "char \<Rightarrow> rexp" where
  \<comment> \<open>a literal character under \<open>re.IGNORECASE\<close>, written in lower case\<close>
  "lit x = Class (\<lambda>c. lower_char c = x)"

definition lits :: "string \<Rightarrow> rexp" where
  "lits s = foldr (\<lambda>x r. Seq (lit x) r) s Empty"

definition re_search_ic :: "string \<Rightarrow> string \<Rightarrow> bool" where
  \<comment> \<open>\<open>re.search(pattern, s, re.IGNORECASE)\<close> for a pattern without metacharacters, as
      every configured pattern is: a substring test that ignores case\<close>
  "re_search_ic pattern s = contains (lower s) (lower pattern)"

section \<open>Configuration (\<open>config.py\<close>)\<close>

record crawler_config =
  MAX_PAGES :: nat
  MIN_CONTENT_LENGTH :: nat
  USEFUL_URL_PATTERNS :: "string list"
  EXCLUDED_EXTENSIONS :: "string list"

definition config :: crawler_config where
  \<comment> \<open>the global instance \<open>config = CrawlerConfig()\<close> with the defaults of \<open>__post_init__\<close>\<close>
  "config = \<lparr> MAX_PAGES = 1000, MIN_CONTENT_LENGTH = 100,
     USEFUL_URL_PATTERNS = [''/article/'', ''/blog/'', ''/news/'', ''/post/'',
                            ''/story/'', ''/content/'', ''/page/''],
     EXCLUDED_EXTENSIONS = [''.pdf'', ''.jpg'', ''.jpeg'', ''.png'', ''.gif'',
                            ''.mp4'', ''.avi'', ''.zip'', ''.exe'', ''.css'', ''.js''] \<rparr>"

section \<open>URL and text helpers (\<open>utils/helpers.py\<close>)\<close>

definition url_pattern :: rexp where
  \<comment> \<open>the pattern of \<open>is_valid_url\<close> between \<open>^\<close> and \<open>$\<close>, compiled with \<open>re.IGNORECASE\<close>\<close>
  "url_pattern =
     (let alnum = Class (\<lambda>c. isalpha_ascii c \<or> isdigit c);
          alnum_dash = Class (\<lambda>c. isalpha_ascii c \<or> isdigit c \<or> c = CHR ''-'');
          alpha = Class isalpha_ascii;
          digit = Class isdigit;
          dot = lit (CHR ''.'');
          label = Seq alnum (Seq (optional (Seq (between 0 61 alnum_dash) alnum)) dot);
          domain = Seq (one_or_more label) (Seq (between 2 6 alpha) (optional dot));
          octet = between 1 3 digit;
          ip = Seq octet (Seq dot (Seq octet (Seq dot (Seq octet (Seq dot octet)))));
          host = Alt domain (Alt (lits ''localhost'') ip);
          port = optional (Seq (lit (CHR '':'')) (one_or_more digit));
          rest = Alt (optional (lit (CHR ''/'')))
                     (Seq (Class (\<lambda>c. c = CHR ''/'' \<or> c = CHR ''?''))
                          (one_or_more (Class (\<lambda>c. \<not> isspace c))))
      in Seq (lits ''http'') (Seq (optional (lit (CHR ''s''))) (Seq (lits ''://'')
           (Seq host (Seq port rest)))))"

definition is_valid_url :: "string \<Rightarrow> error + bool" where
  \<comment> \<open>\<open>urlparse\<close> is called outside any \<open>try\<close>: its \<open>ValueError\<close> would leave the function\<close>
  "is_valid_url url =
     (if url = [] then Inr False
      else if \<not> match_to_dollar url_pattern url then Inr False
      else (case urlparse url of
              Inl e \<Rightarrow> Inl e
            | Inr parsed \<Rightarrow>
                if scheme parsed \<notin> set [''http'', ''https''] then Inr False
                else if netloc parsed = [] then Inr False
                else Inr True))"

definition tracking_parameters :: "string list" where
  "tracking_parameters = [''utm_source'', ''utm_medium'', ''utm_campaign'',
                          ''utm_term'', ''utm_content'', ''ref'', ''source'']"

definition keep_param :: "string \<Rightarrow> bool" where
  \<comment> \<open>the test of the loop body of \<open>normalize_url\<close>: \<open>key\<close> is \<open>param.split('=', 1)[0]\<close>\<close>
  "keep_param param =
     (CHR ''='' \<in> set param \<and> lower (before (CHR ''='') param) \<notin> set tracking_parameters)"

definition normalize_url :: "string \<Rightarrow> string" where
  \<comment> \<open>any exception, here the \<open>ValueError\<close> of \<open>urlparse\<close>, returns the URL unchanged\<close>
  "normalize_url url =
     (case urlparse url of
        Inl e \<Rightarrow> url
      | Inr parsed \<Rightarrow>
          let query_params =
                (if query parsed \<noteq> []
                 then filter keep_param (split_on (CHR ''&'') (query parsed)) else []);
              normalized = parsed \<lparr> fragment := [],
                query := (if query_params \<noteq> [] then join ''&'' query_params else []) \<rparr>
          in rstrip (\<lambda>c. c = CHR ''/'') (urlunparse normalized))"

fun collapse_whitespace :: "string \<Rightarrow> string" where
  \<comment> \<open>\<open>re.sub(r'\s+', ' ', text)\<close>: every maximal run of whitespace becomes one space\<close>
  "collapse_whitespace [] = []"
| "collapse_whitespace [c] = (if isspace c then '' '' else [c])"
| "collapse_whitespace (c # d # cs) =
     (if isspace c then
        (if isspace d then collapse_whitespace (d # cs)
         else CHR '' '' # collapse_whitespace (d # cs))
      else c # collapse_whitespace (d # cs))"

definition kept_by_clean_text :: "char \<Rightarrow> bool" where
  \<comment> \<open>the characters outside the class \<open>[^\w\s.,!?;:()\-"]\<close>\<close>
  "kept_by_clean_text c =
     (isword c \<or> isspace c \<or> c \<in> set ''.,!?;:()-'' \<or> code c = 34)"

definition clean_text :: "string \<Rightarrow> string" where
  "clean_text text =
     (if text = [] then []
      else strip (filter kept_by_clean_text (collapse_whitespace text)))"

definition generate_content_hash :: "string \<Rightarrow> string" where
  "generate_content_hash content =
     (if content = [] then []
      else md5_hexdigest (encode (lower (clean_text content))))"

subsection \<open>The shape of a normalized URL\<close>















section \<open>The frontier (\<open>crawler/url_manager.py\<close>)\<close>

text \<open>
  The state of a \<open>URLManager\<close> is the part of the Redis database it uses and its own
  in-process set. The sorted set \<open>crawl_queue\<close> is an association list from member to
  score with no member twice, the Redis set \<open>crawled_urls\<close> is \<open>redis_crawled_urls\<close>, the
  hashes \<open>url_data:{hash}\<close> are a map from the hash to the stored URL and domain (the
  timestamp field is left out: no clock is modelled), and \<open>crawled_urls\<close> is the
  attribute \<open>self.crawled_urls\<close>. Redis commands are taken to succeed.
\<close>

record url_manager =
  crawl_queue :: "(string \<times> int) list"
  redis_crawled_urls :: "string set"
  url_data :: "string \<rightharpoonup> string \<times> string"
  crawled_urls :: "string set"

definition new_url_manager :: "(string \<times> int) list \<Rightarrow> string set \<Rightarrow> url_manager" where
  \<comment> \<open>\<open>URLManager()\<close> on a database with the given queue and crawled set and no URL
      details: the in-process set starts empty\<close>
  "new_url_manager q s =
     \<lparr> crawl_queue = q, redis_crawled_urls = s, url_data = Map.empty, crawled_urls = {} \<rparr>"

definition zadd :: "(string \<times> int) list \<Rightarrow> string \<Rightarrow> int \<Rightarrow> (string \<times> int) list" where
  \<comment> \<open>\<open>ZADD key score member\<close> without options: the member is added, or its score replaced\<close>
  "zadd q member score = (member, score) # filter (\<lambda>e. fst e \<noteq> member) q"

fun bytes_less :: "int list \<Rightarrow> int list \<Rightarrow> bool" where
  \<comment> \<open>the byte-wise order in which Redis compares members of equal score\<close>
  "bytes_less [] [] = False"
| "bytes_less [] (y # ys) = True"
| "bytes_less (x # xs) [] = False"
| "bytes_less (x # xs) (y # ys) = (x < y \<or> (x = y \<and> bytes_less xs ys))"

definition zless :: "string \<times> int \<Rightarrow> string \<times> int \<Rightarrow> bool" where
  "zless a b = (snd a < snd b \<or> (snd a = snd b \<and> bytes_less (encode (fst a)) (encode (fst b))))"

fun zmax :: "string \<times> int \<Rightarrow> (string \<times> int) list \<Rightarrow> string \<times> int" where
  "zmax e [] = e"
| "zmax e (x # xs) = zmax (if zless e x then x else e) xs"

definition zpopmax :: "(string \<times> int) list \<Rightarrow> ((string \<times> int) \<times> (string \<times> int) list) option" where
  \<comment> \<open>\<open>ZPOPMAX key\<close>: removes and returns the member with the highest score\<close>
  "zpopmax q =
     (case q of
        [] \<Rightarrow> None
      | e # es \<Rightarrow> (let m = zmax e es in Some (m, filter (\<lambda>x. fst x \<noteq> fst m) q)))"

definition hash_url :: "string \<Rightarrow> string" where
  \<comment> \<open>\<open>URLManager._hash_url\<close>\<close>
  "hash_url url = md5_hexdigest (encode url)"

definition is_crawled :: "string \<Rightarrow> url_manager \<Rightarrow> bool \<times> url_manager" where
  "is_crawled url um =
     (let url_hash = hash_url url in
      if url_hash \<in> crawled_urls um then (True, um)
      else
        let result = (url_hash \<in> redis_crawled_urls um)
        in if result then (True, um \<lparr> crawled_urls := insert url_hash (crawled_urls um) \<rparr>)
           else (False, um))"

definition add_url :: "string \<Rightarrow> int \<Rightarrow> url_manager \<Rightarrow> error option \<times> url_manager" where
  \<comment> \<open>the first component is the exception that leaves the method, if any:
      \<open>urlparse(url).netloc\<close> is evaluated after the \<open>zadd\<close> and may raise \<open>ValueError\<close>\<close>
  "add_url url priority um =
     (case is_crawled url um of
        (True, um1) \<Rightarrow> (None, um1)
      | (False, um1) \<Rightarrow>
          let url_hash = hash_url url;
              um2 = um1 \<lparr> crawl_queue := zadd (crawl_queue um1) url priority \<rparr>
          in (case urlparse url of
                Inl e \<Rightarrow> (Some e, um2)
              | Inr parsed \<Rightarrow>
                  (None, um2 \<lparr> url_data := (url_data um2)(url_hash \<mapsto> (url, netloc parsed)) \<rparr>)))"

definition get_next_url :: "url_manager \<Rightarrow> string option \<times> url_manager" where
  "get_next_url um =
     (case zpopmax (crawl_queue um) of
        None \<Rightarrow> (None, um)
      | Some ((url, priority), rest) \<Rightarrow> (Some url, um \<lparr> crawl_queue := rest \<rparr>))"

definition mark_crawled :: "string \<Rightarrow> url_manager \<Rightarrow> url_manager" where
  "mark_crawled url um =
     (let url_hash = hash_url url in
      um \<lparr> redis_crawled_urls := insert url_hash (redis_crawled_urls um),
           crawled_urls := insert url_hash (crawled_urls um) \<rparr>)"

text \<open>Sequences of calls on one \<open>URLManager\<close>, with what each call returned.\<close>

datatype frontier_op = Add string int | Next | MarkCrawled string | IsCrawled string

datatype frontier_result = Returned | Raised error | NextUrl "string option" | Crawled bool

fun frontier_step :: "frontier_op \<Rightarrow> url_manager \<Rightarrow> frontier_result \<times> url_manager" where
  "frontier_step (Add url priority) um =
     (case add_url url priority um of
        (None, um') \<Rightarrow> (Returned, um')
      | (Some e, um') \<Rightarrow> (Raised e, um'))"
| "frontier_step Next um = (case get_next_url um of (r, um') \<Rightarrow> (NextUrl r, um'))"
| "frontier_step (MarkCrawled url) um = (Returned, mark_crawled url um)"
| "frontier_step (IsCrawled url) um = (case is_crawled url um of (b, um') \<Rightarrow> (Crawled b, um'))"

fun run_frontier :: "frontier_op list \<Rightarrow> url_manager \<Rightarrow> frontier_result list \<times> url_manager" where
  "run_frontier [] um = ([], um)"
| "run_frontier (op # ops) um =
     (case frontier_step op um of
        (r, um1) \<Rightarrow> (case run_frontier ops um1 of (rs, um2) \<Rightarrow> (r # rs, um2)))"

definition cache_consistent :: "url_manager \<Rightarrow> bool" where
  \<comment> \<open>the in-process set holds only hashes that the Redis set holds\<close>
  "cache_consistent um = (crawled_urls um \<subseteq> redis_crawled_urls um)"

definition queued :: "url_manager \<Rightarrow> string set" where
  \<comment> \<open>the members of \<open>crawl_queue\<close>\<close>
  "queued um = fst ` set (crawl_queue um)"


section \<open>The content store (\<open>utils/database.py\<close>)\<close>

text \<open>
  A \<open>document\<close> is the dictionary \<open>content_data\<close>: \<open>url\<close> is read with \<open>content_data['url']\<close>
  and is always present, the other fields are read with \<open>.get\<close> and may be \<open>None\<close>. The
  table \<open>content\<close> is the list of its rows in the order of insertion. The column \<open>tags\<close>
  holds \<open>json.dumps\<close> of a list of strings; the model keeps the list itself, so that the
  text \<open>'[]'\<close> is the empty list, two texts are equal exactly when the lists are, and
  \<open>json.loads\<close> gives the list back. The floating-point \<open>readability_score\<close> is kept as
  an uninterpreted text.
\<close>

record document =
  url :: string
  title :: "string option"
  description :: "string option"
  content :: "string option"
  author :: "string option"
  publish_date :: "string option"
  tags :: "string list"
  word_count :: "nat option"
  reading_time :: "nat option"
  readability_score :: "string option"
  extracted_at :: "string option"
  content_hash :: "string option"

record row = document +
  row_id :: nat

record database =
  initialized :: bool
  rows :: "row list"
  last_id :: nat

text \<open>
  What can go wrong inside one call: \<open>InitFault\<close> is an \<open>sqlite3\<close> error raised while
  \<open>init_db\<close> creates the schema, \<open>QueryFault\<close> one raised inside the \<open>try\<close> block of the
  operation (a disk error, or a constraint violated by a concurrent writer).
\<close>

datatype db_fault = InitFault | QueryFault

definition init_db :: "db_fault option \<Rightarrow> database \<Rightarrow> error + database" where
  \<comment> \<open>\<open>CREATE TABLE IF NOT EXISTS\<close> and the indexes: the rows stay as they are\<close>
  "init_db fault db =
     (if initialized db then Inr db
      else if fault = Some InitFault then Inl OperationalError
      else Inr (db \<lparr> initialized := True \<rparr>))"

definition sql_eq :: "'a option \<Rightarrow> 'a option \<Rightarrow> bool" where
  \<comment> \<open>SQL \<open>=\<close> as a \<open>WHERE\<close> condition: a comparison with \<open>NULL\<close> selects nothing\<close>
  "sql_eq a b = (a \<noteq> None \<and> a = b)"

definition as_row :: "nat \<Rightarrow> document \<Rightarrow> row" where
  "as_row n d = document.extend d (row.fields n)"

definition save_content :: "db_fault option \<Rightarrow> document \<Rightarrow> database \<Rightarrow> (error + bool) \<times> database" where
  \<comment> \<open>\<open>await self.init_db()\<close> stands before the \<open>try\<close>: its exception leaves the method.
      Inside the \<open>try\<close> every exception is caught and \<open>False\<close> returned; the \<open>INSERT\<close> raises
      \<open>IntegrityError\<close> when the \<open>UNIQUE\<close> column \<open>url\<close> or \<open>content_hash\<close> already holds the value\<close>
  "save_content fault content_data db =
     (case init_db fault db of
        Inl e \<Rightarrow> (Inl e, db)
      | Inr db1 \<Rightarrow>
          if fault = Some QueryFault then (Inr False, db1)
          else if \<exists>r \<in> set (rows db1). sql_eq (content_hash content_data) (content_hash r)
          then (Inr False, db1)
          else if \<exists>r \<in> set (rows db1). url r = url content_data
                    \<or> sql_eq (content_hash content_data) (content_hash r)
          then (Inr False, db1)
          else (Inr True, db1 \<lparr> rows := rows db1 @ [as_row (Suc (last_id db1)) content_data],
                                 last_id := Suc (last_id db1) \<rparr>))"



definition group_count :: "row list \<Rightarrow> string list \<Rightarrow> nat" where
  \<comment> \<open>\<open>COUNT(*)\<close> of the group of one \<open>tags\<close> value\<close>
  "group_count rs ts = length (filter (\<lambda>r. tags r = ts) rs)"

fun insert_by_count :: "string list \<times> nat \<Rightarrow> (string list \<times> nat) list \<Rightarrow> (string list \<times> nat) list" where
  "insert_by_count g [] = [g]"
| "insert_by_count g (h # hs) =
     (if snd h < snd g then g # h # hs else h # insert_by_count g hs)"

definition tag_groups :: "row list \<Rightarrow> (string list \<times> nat) list" where
  \<comment> \<open>\<open>SELECT tags, COUNT(*) ... WHERE tags != '[]' AND tags IS NOT NULL GROUP BY tags
      ORDER BY count DESC LIMIT 10\<close>. SQL leaves the order of groups with equal counts
      open; here they stay in the order in which their first rows were inserted\<close>
  "tag_groups rs =
     (let keys = remdups (rev (filter (\<lambda>ts. ts \<noteq> []) (map tags rs)));
          groups = map (\<lambda>ts. (ts, group_count rs ts)) keys
      in take 10 (foldr insert_by_count groups []))"



definition same_hash_stored :: "document \<Rightarrow> database \<Rightarrow> bool" where
  \<comment> \<open>the \<open>SELECT id FROM content WHERE content_hash = ?\<close> of \<open>save_content\<close> finds a row\<close>
  "same_hash_stored d db = (\<exists>r \<in> set (rows db). sql_eq (content_hash d) (content_hash r))"

definition same_url_stored :: "document \<Rightarrow> database \<Rightarrow> bool" where
  "same_url_stored d db = (\<exists>r \<in> set (rows db). url r = url d)"

definition plain_document :: "string \<Rightarrow> string list \<Rightarrow> string \<Rightarrow> document" where
  \<comment> \<open>a document with the given URL, tags and content hash and no other metadata\<close>
  "plain_document u ts h =
     \<lparr> url = u, title = None, description = None, content = None, author = None,
       publish_date = None, tags = ts, word_count = None, reading_time = None,
       readability_score = None, extracted_at = None, content_hash = Some h \<rparr>"

definition table_of :: "document list \<Rightarrow> database" where
  \<comment> \<open>the store after the given documents have been inserted in this order\<close>
  "table_of ds =
     \<lparr> initialized = False, rows = map (\<lambda>(n, d). as_row (Suc n) d) (enumerate 0 ds),
       last_id = length ds \<rparr>"

section \<open>The extractor (\<open>crawler/content_processor.py\<close>)\<close>

text \<open>
  The parsed page is a \<open>BeautifulSoup\<close> tree. The code only queries it, so a \<open>soup\<close> is
  the record of the answers, taken on the tree as \<open>_clean_html\<close> leaves it (it runs first
  in \<open>extract_content\<close>, and the crawl loop reads the links afterwards from the same tree):
  \<^item> \<open>select_one_text sel\<close> is \<open>None\<close> when \<open>soup.select_one(sel)\<close> finds nothing, else the
    \<open>get_text(strip=True)\<close> of the element found;
  \<^item> \<open>select_one_attr sel a\<close> is the attribute \<open>a\<close> of that element, if it has it;
  \<^item> \<open>select_texts sel\<close> lists the texts of \<open>soup.select(sel)\<close>;
  \<^item> \<open>paragraphs\<close> lists the texts of \<open>soup.find_all('p')\<close>;
  \<^item> \<open>body_text\<close> and \<open>title_tag_text\<close> are the texts of \<open>soup.find('body')\<close> and
    \<open>soup.find('title')\<close>, if the element exists;
  \<^item> \<open>meta_content a v\<close> is the \<open>content\<close> attribute of \<open>soup.find('meta', attrs={a: v})\<close>;
  \<^item> \<open>hrefs\<close> lists \<open>link['href']\<close> for \<open>soup.find_all('a', href=True)\<close>.
\<close>

record soup =
  select_one_text :: "string \<Rightarrow> string option"
  select_one_attr :: "string \<Rightarrow> string \<Rightarrow> string option"
  select_texts :: "string \<Rightarrow> string list"
  paragraphs :: "string list"
  body_text :: "string option"
  title_tag_text :: "string option"
  meta_content :: "string \<Rightarrow> string \<Rightarrow> string option"
  hrefs :: "string list"

text \<open>
  The libraries and the outside world are a record of functions: the HTTP session, the
  HTML parser, \<open>textstat\<close>, \<open>dateutil\<close>, the clock, \<open>urljoin\<close>, and the fault (if any) that
  the store meets.
\<close>

datatype fetch_outcome =
    Response nat "string option" string
  | TimeoutError
  | ClientError

record environment =
  session_get :: "string \<Rightarrow> fetch_outcome"
  BeautifulSoup :: "string \<Rightarrow> soup"
  flesch_reading_ease :: "string \<Rightarrow> string"
  dateutil_parse_isoformat :: "string \<Rightarrow> string option"
  utcnow_isoformat :: string
  urljoin :: "string \<Rightarrow> string \<Rightarrow> error + string"
  store_fault :: "db_fault option"

definition content_selectors :: "string list" where
  \<open>content_selectors = [''article'', ''[role="main"]'', ''.content'', ''#content'',
                         ''.post-content'', ''.entry-content'', ''.article-body'']\<close>

definition title_selectors :: "string list" where
  \<open>title_selectors = [''h1'', ''.title'', ''.post-title'', ''.article-title'',
                       ''.entry-title'', ''[property="og:title"]'']\<close>

fun select_content :: "soup \<Rightarrow> string list \<Rightarrow> string option" where
  \<comment> \<open>strategy 1 of \<open>_extract_main_content\<close>: the loop over the selectors\<close>
  "select_content s [] = None"
| "select_content s (selector # selectors) =
     (case select_one_text s selector of
        None \<Rightarrow> select_content s selectors
      | Some c \<Rightarrow> if 200 < length c then Some c else select_content s selectors)"

definition extract_main_content :: "soup \<Rightarrow> string option" where
  "extract_main_content s =
     (case select_content s content_selectors of
        Some c \<Rightarrow> Some c
      | None \<Rightarrow>
          let all_paragraphs = paragraphs s;
              content_blocks = filter (\<lambda>text. 50 < length text) all_paragraphs
          in if all_paragraphs \<noteq> [] \<and> content_blocks \<noteq> []
             then Some (join '' '' content_blocks)
             else (case body_text s of
                     None \<Rightarrow> None
                   | Some c \<Rightarrow> if 200 < length c then Some c else None))"

fun first_nonempty_text :: "soup \<Rightarrow> string list \<Rightarrow> string option" where
  \<comment> \<open>the loops of \<open>_extract_title\<close> and \<open>_extract_author\<close>\<close>
  "first_nonempty_text s [] = None"
| "first_nonempty_text s (selector # selectors) =
     (case select_one_text s selector of
        None \<Rightarrow> first_nonempty_text s selectors
      | Some t \<Rightarrow> if t \<noteq> [] then Some t else first_nonempty_text s selectors)"

definition extract_title :: "soup \<Rightarrow> string option" where
  "extract_title s =
     (case first_nonempty_text s title_selectors of
        Some t \<Rightarrow> Some t
      | None \<Rightarrow> title_tag_text s)"

definition nonempty :: "string option \<Rightarrow> string option" where
  \<comment> \<open>a value that Python takes as true\<close>
  "nonempty x = (case x of None \<Rightarrow> None | Some t \<Rightarrow> if t = [] then None else Some t)"

definition extract_description :: "soup \<Rightarrow> string option" where
  "extract_description s =
     (case nonempty (meta_content s ''name'' ''description'') of
        Some c \<Rightarrow> Some (strip c)
      | None \<Rightarrow>
          (case nonempty (meta_content s ''property'' ''og:description'') of
             Some c \<Rightarrow> Some (strip c)
           | None \<Rightarrow> None))"

definition author_selectors :: "string list" where
  \<open>author_selectors = [''[rel="author"]'', ''.author'', ''.byline'',
                        ''[property="article:author"]'', ''.post-author'']\<close>

definition extract_author :: "soup \<Rightarrow> string option" where
  "extract_author s = first_nonempty_text s author_selectors"

definition date_selectors :: "string list" where
  \<open>date_selectors = [''[property="article:published_time"]'',
                      ''[datetime]'', ''.date'', ''.publish-date'', ''time'']\<close>

fun first_date :: "environment \<Rightarrow> soup \<Rightarrow> string list \<Rightarrow> string option" where
  \<comment> \<open>the loop of \<open>_extract_publish_date\<close>: the first element with any date text decides,
      also when \<open>dateutil\<close> cannot parse it\<close>
  "first_date env s [] = None"
| "first_date env s (selector # selectors) =
     (case select_one_text s selector of
        None \<Rightarrow> first_date env s selectors
      | Some t \<Rightarrow>
          (let date_str =
                 (case nonempty (select_one_attr s selector ''datetime'') of
                    Some d \<Rightarrow> Some d
                  | None \<Rightarrow>
                      (case nonempty (select_one_attr s selector ''content'') of
                         Some d \<Rightarrow> Some d
                       | None \<Rightarrow> nonempty (Some t)))
           in (case date_str of
                 Some d \<Rightarrow> dateutil_parse_isoformat env d
               | None \<Rightarrow> first_date env s selectors)))"

definition extract_publish_date :: "environment \<Rightarrow> soup \<Rightarrow> string option" where
  "extract_publish_date env s = first_date env s date_selectors"

definition tag_selectors :: "string list" where
  \<open>tag_selectors = [''.tags a'', ''.categories a'', ''.tag'', ''[property="article:tag"]'']\<close>

definition extract_tags :: "soup \<Rightarrow> string list" where
  "extract_tags s =
     take 10 (foldl (\<lambda>acc tag_text. if tag_text \<noteq> [] \<and> tag_text \<notin> set acc
                                     then acc @ [tag_text] else acc)
                [] (concat (map (select_texts s) tag_selectors)))"

definition hash_content :: "string \<Rightarrow> string" where
  \<comment> \<open>\<open>ContentProcessor._hash_content\<close>\<close>
  "hash_content c = md5_hexdigest (encode c)"

definition extract_content :: "environment \<Rightarrow> string \<Rightarrow> soup \<Rightarrow> string \<Rightarrow> document option" where
  "extract_content env page_url s html_content =
     (case extract_main_content s of
        None \<Rightarrow> None
      | Some c \<Rightarrow>
          if c = [] then None
          else
            let n = length (words c)
            in Some \<lparr> url = page_url,
                      title = extract_title s,
                      description = extract_description s,
                      content = Some c,
                      author = extract_author s,
                      publish_date = extract_publish_date env s,
                      tags = extract_tags s,
                      word_count = Some n,
                      reading_time = Some (max 1 (n div 200)),
                      readability_score = Some (flesch_reading_ease env c),
                      extracted_at = Some (utcnow_isoformat env),
                      content_hash = Some (hash_content c) \<rparr>)"

text \<open>
  The body selection as the specification describes it: three kinds of candidates in
  order, and the first candidate longer than 200 characters wins.
\<close>

definition body_candidates :: "soup \<Rightarrow> string list" where
  "body_candidates s =
     concat (map (\<lambda>selector. case select_one_text s selector of None \<Rightarrow> [] | Some c \<Rightarrow> [c])
                 content_selectors)
     @ [join '' '' (filter (\<lambda>text. 50 < length text) (paragraphs s))]
     @ (case body_text s of None \<Rightarrow> [] | Some c \<Rightarrow> [c])"

definition first_over_200 :: "string list \<Rightarrow> string option" where
  "first_over_200 cs = (case filter (\<lambda>c. 200 < length c) cs of [] \<Rightarrow> None | c # _ \<Rightarrow> Some c)"

definition long_paragraphs :: "soup \<Rightarrow> string list" where
  \<comment> \<open>the list \<open>content_blocks\<close> of strategy 2\<close>
  "long_paragraphs s = filter (\<lambda>text. 50 < length text) (paragraphs s)"

definition no_long_selection :: "soup \<Rightarrow> bool" where
  \<comment> \<open>no selector of strategy 1 finds an element with more than 200 characters of text\<close>
  "no_long_selection s =
     (\<forall>selector \<in> set content_selectors.
        \<forall>c. select_one_text s selector = Some c \<longrightarrow> length c \<le> 200)"

definition paragraph_soup :: "string list \<Rightarrow> string list \<Rightarrow> soup" where
  \<comment> \<open>a page that consists of paragraphs and links only, without a \<open>body\<close> element\<close>
  "paragraph_soup ps links =
     \<lparr> select_one_text = (\<lambda>selector. None), select_one_attr = (\<lambda>selector a. None),
       select_texts = (\<lambda>selector. []), paragraphs = ps, body_text = None,
       title_tag_text = None, meta_content = (\<lambda>a v. None), hrefs = links \<rparr>"

section \<open>The crawl loop (\<open>crawler/core_crawler.py\<close>)\<close>

definition is_valid_crawl_url :: "string \<Rightarrow> error + bool" where
  \<comment> \<open>\<open>WebCrawler._is_valid_crawl_url\<close>\<close>
  "is_valid_crawl_url link =
     (case is_valid_url link of
        Inl e \<Rightarrow> Inl e
      | Inr False \<Rightarrow> Inr False
      | Inr True \<Rightarrow>
          (case urlparse link of
             Inl e \<Rightarrow> Inl e
           | Inr parsed \<Rightarrow>
               if \<exists>ext \<in> set (EXCLUDED_EXTENSIONS config). endswith (lower (path parsed)) ext
               then Inr False
               else if \<exists>pattern \<in> set (USEFUL_URL_PATTERNS config). re_search_ic pattern link
               then Inr True
               else Inr False))"

fun extract_urls_loop :: "environment \<Rightarrow> string \<Rightarrow> string list \<Rightarrow> error + string list" where
  \<comment> \<open>the loop of \<open>_extract_urls\<close> over the \<open>href\<close> values; an exception ends it\<close>
  "extract_urls_loop env base_url [] = Inr []"
| "extract_urls_loop env base_url (href # rest) =
     (case urljoin env base_url href of
        Inl e \<Rightarrow> Inl e
      | Inr full_url \<Rightarrow>
          (case is_valid_crawl_url full_url of
             Inl e \<Rightarrow> Inl e
           | Inr ok \<Rightarrow>
               (case extract_urls_loop env base_url rest of
                  Inl e \<Rightarrow> Inl e
                | Inr urls \<Rightarrow> Inr (if ok then normalize_url full_url # urls else urls))))"

definition extract_urls :: "environment \<Rightarrow> string \<Rightarrow> soup \<Rightarrow> error + string list" where
  "extract_urls env base_url s = extract_urls_loop env base_url (hrefs s)"

definition is_useful_content :: "document \<Rightarrow> bool" where
  "is_useful_content content_data =
     (case content content_data of
        None \<Rightarrow> False
      | Some c \<Rightarrow> c \<noteq> [] \<and> MIN_CONTENT_LENGTH config \<le> length c)"

definition fetch_page :: "environment \<Rightarrow> string \<Rightarrow> string option" where
  \<comment> \<open>\<open>WebCrawler._fetch_page\<close>: every failure is logged and gives \<open>None\<close>\<close>
  "fetch_page env link =
     (case session_get env link of
        Response status content_type text \<Rightarrow>
          if status = 200
          then (if contains (case content_type of None \<Rightarrow> [] | Some t \<Rightarrow> t) ''text/html''
                then Some text else None)
          else None
      | TimeoutError \<Rightarrow> None
      | ClientError \<Rightarrow> None)"

record crawler =
  manager :: url_manager
  db_manager :: database
  crawled_count :: nat

fun add_urls :: "string list \<Rightarrow> url_manager \<Rightarrow> error option \<times> url_manager" where
  \<comment> \<open>\<open>for new_url in new_urls: await self.url_manager.add_url(new_url)\<close>, priority 1\<close>
  "add_urls [] um = (None, um)"
| "add_urls (new_url # rest) um =
     (case add_url new_url 1 um of
        (Some e, um1) \<Rightarrow> (Some e, um1)
      | (None, um1) \<Rightarrow> add_urls rest um1)"

definition process_page :: "environment \<Rightarrow> string \<Rightarrow> string \<Rightarrow> crawler \<Rightarrow> crawler" where
  \<comment> \<open>the body of the \<open>try\<close> of \<open>_crawl_page\<close> once a page has been fetched; where an
      exception is raised the \<open>except\<close> clause logs it and the method returns\<close>
  "process_page env link html_content c =
     (let s = BeautifulSoup env html_content;
          content_data = extract_content env link s html_content;
          saved = (case content_data of
                     None \<Rightarrow> (Inr False, db_manager c)
                   | Some d \<Rightarrow> if is_useful_content d
                               then save_content (store_fault env) d (db_manager c)
                               else (Inr False, db_manager c))
      in case saved of
           (Inl e, db1) \<Rightarrow> c \<lparr> db_manager := db1 \<rparr>
         | (Inr b, db1) \<Rightarrow>
             (case extract_urls env link s of
                Inl e \<Rightarrow> c \<lparr> db_manager := db1 \<rparr>
              | Inr new_urls \<Rightarrow>
                  (case add_urls new_urls (manager c) of
                     (Some e, um1) \<Rightarrow> c \<lparr> db_manager := db1, manager := um1 \<rparr>
                   | (None, um1) \<Rightarrow>
                       c \<lparr> db_manager := db1, manager := mark_crawled link um1 \<rparr>)))"

definition crawl_page :: "environment \<Rightarrow> string \<Rightarrow> crawler \<Rightarrow> crawler" where
  \<comment> \<open>\<open>WebCrawler._crawl_page\<close>\<close>
  "crawl_page env link c =
     (case is_crawled link (manager c) of
        (True, um1) \<Rightarrow> c \<lparr> manager := um1 \<rparr>
      | (False, um1) \<Rightarrow>
          (case fetch_page env link of
             None \<Rightarrow> c \<lparr> manager := um1 \<rparr>
           | Some html_content \<Rightarrow>
               if html_content = [] then c \<lparr> manager := um1 \<rparr>
               else process_page env link html_content (c \<lparr> manager := um1 \<rparr>)))"

definition crawl_iteration :: "environment \<Rightarrow> crawler \<Rightarrow> crawler option" where
  \<comment> \<open>one pass through the body of the \<open>while\<close> loop of \<open>crawl\<close>; \<open>None\<close> is the \<open>break\<close>.
      \<open>_crawl_page\<close> catches what is raised inside it, so the page is always counted\<close>
  "crawl_iteration env c =
     (case get_next_url (manager c) of
        (None, um1) \<Rightarrow> None
      | (Some link, um1) \<Rightarrow>
          if link = [] then None
          else
            let c1 = crawl_page env link (c \<lparr> manager := um1 \<rparr>)
            in Some (c1 \<lparr> crawled_count := crawled_count c1 + 1 \<rparr>))"

definition after_break :: "crawler \<Rightarrow> crawler" where
  \<comment> \<open>the state in which the loop is left by \<open>break\<close>: the \<open>zpopmax\<close> has been done\<close>
  "after_break c = c \<lparr> manager := snd (get_next_url (manager c)) \<rparr>"

lemma crawl_page_count: "crawled_count (crawl_page env link c) = crawled_count c"
  by (simp add: crawl_page_def process_page_def Let_def
      split: prod.splits bool.splits option.splits sum.splits)

lemma crawl_iteration_count:
  "crawl_iteration env c = Some c1 \<Longrightarrow> crawled_count c1 = Suc (crawled_count c)"
  by (auto simp: crawl_iteration_def Let_def crawl_page_count
      split: prod.splits option.splits if_splits)

function crawl :: "environment \<Rightarrow> crawler \<Rightarrow> crawler" where
  \<comment> \<open>\<open>WebCrawler.crawl\<close>, without the logging and the politeness delay\<close>
  "crawl env c =
     (if crawled_count c < MAX_PAGES config
      then (case crawl_iteration env c of
              None \<Rightarrow> after_break c
            | Some c1 \<Rightarrow> crawl env c1)
      else c)"
  by pat_completeness auto

termination crawl
proof (relation "measure (\<lambda>(env, c). MAX_PAGES config - crawled_count c)")
  show "wf (measure (\<lambda>(env, c). MAX_PAGES config - crawled_count c))"
    by simp
next
  fix env c c1
  assume "crawled_count c < MAX_PAGES config" and "crawl_iteration env c = Some c1"
  then show "((env, c1), (env, c)) \<in> measure (\<lambda>(env, c). MAX_PAGES config - crawled_count c)"
    using crawl_iteration_count [of env c c1] by simp
qed

definition fetch_fails :: "environment \<Rightarrow> string \<Rightarrow> bool" where
  \<comment> \<open>a timeout, a transport error, a status other than 200, or a content type that is not HTML\<close>
  "fetch_fails env link =
     (case session_get env link of
        Response status content_type text \<Rightarrow>
          status \<noteq> 200 \<or> \<not> contains (case content_type of None \<Rightarrow> [] | Some t \<Rightarrow> t) ''text/html''
      | TimeoutError \<Rightarrow> True
      | ClientError \<Rightarrow> True)"




fun add_seeds :: "string list \<Rightarrow> url_manager \<Rightarrow> error option \<times> url_manager" where
  \<comment> \<open>\<open>__aenter__\<close>: the seeds enter the queue with priority 10\<close>
  "add_seeds [] um = (None, um)"
| "add_seeds (seed # rest) um =
     (case add_url seed 10 um of
        (Some e, um1) \<Rightarrow> (Some e, um1)
      | (None, um1) \<Rightarrow> add_seeds rest um1)"

definition new_crawler :: "url_manager \<Rightarrow> database \<Rightarrow> crawler" where
  "new_crawler um db = \<lparr> manager = um, db_manager = db, crawled_count = 0 \<rparr>"

definition static_web :: "(string \<Rightarrow> fetch_outcome) \<Rightarrow> (string \<Rightarrow> soup) \<Rightarrow> environment" where
  \<comment> \<open>an environment with the given responses and parsed pages, links that are already
      absolute, a fixed clock and a store without faults\<close>
  "static_web responses pages =
     \<lparr> session_get = responses, BeautifulSoup = pages,
       flesch_reading_ease = (\<lambda>text. ''0.0''),
       dateutil_parse_isoformat = (\<lambda>text. None),
       utcnow_isoformat = ''2026-01-01T00:00:00'',
       urljoin = (\<lambda>base href. Inr href),
       store_fault = None \<rparr>"

definition unreachable_web :: environment where
  \<comment> \<open>every request times out\<close>
  "unreachable_web = static_web (\<lambda>link. TimeoutError) (\<lambda>html. paragraph_soup [] [])"

definition status_web :: "nat \<Rightarrow> environment" where
  \<comment> \<open>every request is answered with the given status and an empty HTML body\<close>
  "status_web status =
     static_web (\<lambda>link. Response status (Some ''text/html'') []) (\<lambda>html. paragraph_soup [] [])"

section \<open>The library models on known values\<close>

text \<open>The MD5 test suite of RFC 1321, in part, and the digest of a text outside ASCII.\<close>

lemma md5_test_suite:
  "md5_hexdigest (encode '''') = ''d41d8cd98f00b204e9800998ecf8427e''"
  "md5_hexdigest (encode ''abc'') = ''900150983cd24fb0d6963f7d28e17f72''"
  "md5_hexdigest (encode ''message digest'') = ''f96b697d7cb7938d525a2f31aaf161d0''"
  by code_simp+

text \<open>
  \<open>urlparse\<close> and \<open>urlunparse\<close> on a URL with every component, and on a host in brackets
  that is not an IP literal.
\<close>

lemma urlparse_components:
  "urlparse ''HTTP://Ex.com:80/a/b;p?q=1&r#f''
     = Inr \<lparr> scheme = ''http'', netloc = ''Ex.com:80'', path = ''/a/b'', query = ''q=1&r'',
             fragment = ''f'', params = ''p'' \<rparr>"
  "map_sum id urlunparse (urlparse ''HTTP://Ex.com:80/a/b;p?q=1&r#f'')
     = Inr ''http://Ex.com:80/a/b;p?q=1&r#f''"
  "urlparse ''http://[1.2.3.4]/'' = Inl ValueError"
  by code_simp+

text \<open>The tracking parameters are removed and the order of the others is kept.\<close>

lemma normalize_url_tracking_strip:
  "normalize_url ''http://x/?a=1&utm_source=z&b=2'' = ''http://x/?a=1&b=2''"
  "normalize_url ''https://example.com/blog/post/#comments'' = ''https://example.com/blog/post''"
  by code_simp+

section \<open>Properties of the frontier\<close>

lemma is_crawled_consistent:
  "cache_consistent um \<Longrightarrow> cache_consistent (snd (is_crawled v um))"
  by (auto simp: cache_consistent_def is_crawled_def Let_def)

lemma add_url_consistent:
  "cache_consistent um \<Longrightarrow> cache_consistent (snd (add_url v p um))"
  using is_crawled_consistent [of um v]
  by (auto simp: add_url_def cache_consistent_def Let_def split: prod.splits bool.splits sum.splits)

lemma get_next_url_consistent:
  "cache_consistent um \<Longrightarrow> cache_consistent (snd (get_next_url um))"
  by (auto simp: get_next_url_def cache_consistent_def split: option.splits prod.splits)

lemma mark_crawled_consistent:
  "cache_consistent um \<Longrightarrow> cache_consistent (mark_crawled v um)"
  by (auto simp: mark_crawled_def cache_consistent_def Let_def)

lemma frontier_step_consistent:
  "cache_consistent um \<Longrightarrow> cache_consistent (snd (frontier_step op um))"
proof (cases op)
  case (Add v p)
  then show "cache_consistent um \<Longrightarrow> ?thesis"
    using add_url_consistent [of um v p] by (auto split: prod.splits option.splits)
next
  case Next
  then show "cache_consistent um \<Longrightarrow> ?thesis"
    using get_next_url_consistent [of um] by (auto split: prod.splits)
next
  case (MarkCrawled v)
  then show "cache_consistent um \<Longrightarrow> ?thesis"
    by (simp add: mark_crawled_consistent)
next
  case (IsCrawled v)
  then show "cache_consistent um \<Longrightarrow> ?thesis"
    using is_crawled_consistent [of um v] by (auto split: prod.splits)
qed

lemma snd_run_frontier_Cons:
  "snd (run_frontier (op # ops) um) = snd (run_frontier ops (snd (frontier_step op um)))"
  by (simp split: prod.splits)

lemma run_frontier_consistent:
  "cache_consistent um \<Longrightarrow> cache_consistent (snd (run_frontier ops um))"
proof (induction ops arbitrary: um)
  case Nil
  then show ?case by simp
next
  case (Cons op ops)
  from Cons.prems have "cache_consistent (snd (frontier_step op um))"
    by (rule frontier_step_consistent)
  then have "cache_consistent (snd (run_frontier ops (snd (frontier_step op um))))"
    by (rule Cons.IH)
  then show ?case by (simp only: snd_run_frontier_Cons)
qed

text \<open>
  Claim C10. Start from a \<open>URLManager\<close> whose in-process set \<open>crawled_urls\<close> is a subset
  of the Redis set (it is empty when the object is created). After every prefix of every
  sequence of \<open>add_url\<close>, \<open>get_next_url\<close>, \<open>mark_crawled\<close> and \<open>is_crawled\<close> calls the
  in-process set is still a subset of the Redis set: a hash enters it only together with
  the insertion into the Redis set, or after \<open>sismember\<close> has confirmed it.
\<close>

theorem hot_cache_subset_of_backend:
  assumes "crawled_urls um \<subseteq> redis_crawled_urls um"
  shows "crawled_urls (snd (run_frontier (take n ops) um))
           \<subseteq> redis_crawled_urls (snd (run_frontier (take n ops) um))"
  using run_frontier_consistent [of um "take n ops"] assms
  by (simp add: cache_consistent_def)























text \<open>The invariant at a concrete manager whose Redis set already holds one hash.\<close>

theorem hot_cache_subset_of_backend_witness:
  "crawled_urls (new_url_manager [] {hash_url ''http://example.com/blog/a''})
     \<subseteq> redis_crawled_urls (new_url_manager [] {hash_url ''http://example.com/blog/a''})
   \<and> crawled_urls (snd (run_frontier (take 2 [IsCrawled ''http://example.com/blog/a'',
            MarkCrawled ''http://example.com/blog/b'', Next])
          (new_url_manager [] {hash_url ''http://example.com/blog/a''})))
     \<subseteq> redis_crawled_urls (snd (run_frontier (take 2 [IsCrawled ''http://example.com/blog/a'',
            MarkCrawled ''http://example.com/blog/b'', Next])
          (new_url_manager [] {hash_url ''http://example.com/blog/a''})))"
  using hot_cache_subset_of_backend
    [of "new_url_manager [] {hash_url ''http://example.com/blog/a''}" 2
        "[IsCrawled ''http://example.com/blog/a'', MarkCrawled ''http://example.com/blog/b'', Next]"]
  by (simp add: new_url_manager_def)




section \<open>Properties of the content store\<close>

lemma init_db_rows: "init_db f db = Inr db1 \<Longrightarrow> rows db1 = rows db \<and> last_id db1 = last_id db"
  by (auto simp: init_db_def split: if_splits)

lemma init_db_raises:
  "(init_db f db = Inl e) = (\<not> initialized db \<and> f = Some InitFault \<and> e = OperationalError)"
  by (auto simp: init_db_def split: if_splits)

text \<open>
  Claim C4 as stated fails in two places. A document whose content hash is new but whose
  URL is already stored is not inserted: the \<open>UNIQUE\<close> constraint on \<open>url\<close> makes the
  \<open>INSERT\<close> raise, and \<open>save_content\<close> returns \<open>False\<close>. And a failure of \<open>init_db\<close>, which
  is awaited before the \<open>try\<close> block, leaves \<open>save_content\<close> as an exception.
\<close>

theorem save_content_counterexample:
  "\<not> same_hash_stored (plain_document ''http://a.com/blog/1'' [] ''d41d8cd98f00b204e9800998ecf8427e'')
        (table_of [plain_document ''http://a.com/blog/1'' [] ''900150983cd24fb0d6963f7d28e17f72''])
   \<and> save_content None (plain_document ''http://a.com/blog/1'' [] ''d41d8cd98f00b204e9800998ecf8427e'')
        (table_of [plain_document ''http://a.com/blog/1'' [] ''900150983cd24fb0d6963f7d28e17f72''])
      = (Inr False, (table_of [plain_document ''http://a.com/blog/1'' [] ''900150983cd24fb0d6963f7d28e17f72''])
                      \<lparr> initialized := True \<rparr>)
   \<and> fst (save_content (Some InitFault)
             (plain_document ''http://a.com/blog/1'' [] ''d41d8cd98f00b204e9800998ecf8427e'') (table_of []))
      = Inl OperationalError"
  by (simp add: same_hash_stored_def save_content_def init_db_def table_of_def
      plain_document_def as_row_def sql_eq_def document.defs row.defs enumerate_eq_zip)

text \<open>
  Claim C4, amended. \<open>save_content\<close> returns \<open>False\<close> and leaves the rows unchanged when a
  row with the same content hash exists. It returns \<open>True\<close> exactly when no row has the same
  content hash, no row has the same URL, and nothing fails; then the document is appended
  as a new row. In every other case the rows are unchanged. A failure inside the \<open>try\<close>
  block gives \<open>False\<close>; the only exception that leaves the method is a failure of the
  schema initialisation on the first use of the manager.
\<close>

theorem save_content_outcomes:
  fixes d :: document
  shows "(same_hash_stored d db \<longrightarrow>
            fst (save_content f d db) \<noteq> Inr True \<and> rows (snd (save_content f d db)) = rows db)
       \<and> (fst (save_content f d db) = Inr True \<longleftrightarrow>
            \<not> same_hash_stored d db \<and> \<not> same_url_stored d db \<and> f \<noteq> Some QueryFault
            \<and> \<not> (\<not> initialized db \<and> f = Some InitFault))
       \<and> (fst (save_content f d db) = Inr True \<longrightarrow>
            rows (snd (save_content f d db)) = rows db @ [as_row (Suc (last_id db)) d])
       \<and> (fst (save_content f d db) \<noteq> Inr True \<longrightarrow> rows (snd (save_content f d db)) = rows db)
       \<and> (fst (save_content f d db) = Inl e \<longleftrightarrow>
            \<not> initialized db \<and> f = Some InitFault \<and> e = OperationalError)"
proof (cases "init_db f db")
  case (Inl e')
  then have "\<not> initialized db \<and> f = Some InitFault \<and> e' = OperationalError"
    by (simp add: init_db_raises)
  with Inl show ?thesis by (auto simp: save_content_def)
next
  case (Inr db1)
  then have r: "rows db1 = rows db" "last_id db1 = last_id db"
    using init_db_rows by auto
  from Inr have n: "\<not> (\<not> initialized db \<and> f = Some InitFault)"
    by (auto simp: init_db_def split: if_splits)
  from Inr r n show ?thesis
    by (auto simp: save_content_def same_hash_stored_def same_url_stored_def)
qed

text \<open>
  The amended claim at a store with one row: a document with the stored hash is refused,
  a document with a new hash and a new URL is inserted.
\<close>

theorem save_content_outcomes_witness:
  "same_hash_stored (plain_document ''http://a.com/blog/2'' [] ''900150983cd24fb0d6963f7d28e17f72'')
        (table_of [plain_document ''http://a.com/blog/1'' [] ''900150983cd24fb0d6963f7d28e17f72''])
   \<and> fst (save_content None (plain_document ''http://a.com/blog/2'' [] ''900150983cd24fb0d6963f7d28e17f72'')
        (table_of [plain_document ''http://a.com/blog/1'' [] ''900150983cd24fb0d6963f7d28e17f72''])) = Inr False
   \<and> fst (save_content None (plain_document ''http://a.com/blog/2'' [] ''d41d8cd98f00b204e9800998ecf8427e'')
        (table_of [plain_document ''http://a.com/blog/1'' [] ''900150983cd24fb0d6963f7d28e17f72''])) = Inr True
   \<and> length (rows (snd (save_content None (plain_document ''http://a.com/blog/2'' [] ''d41d8cd98f00b204e9800998ecf8427e'')
        (table_of [plain_document ''http://a.com/blog/1'' [] ''900150983cd24fb0d6963f7d28e17f72''])))) = 2"
  using
    save_content_outcomes [of "plain_document ''http://a.com/blog/2'' [] ''900150983cd24fb0d6963f7d28e17f72''"
      "table_of [plain_document ''http://a.com/blog/1'' [] ''900150983cd24fb0d6963f7d28e17f72'']" None OperationalError]
    save_content_outcomes [of "plain_document ''http://a.com/blog/2'' [] ''d41d8cd98f00b204e9800998ecf8427e''"
      "table_of [plain_document ''http://a.com/blog/1'' [] ''900150983cd24fb0d6963f7d28e17f72'']" None OperationalError]
  by (simp add: same_hash_stored_def same_url_stored_def table_of_def
      plain_document_def as_row_def sql_eq_def document.defs row.defs enumerate_eq_zip
      save_content_def init_db_def)

lemma set_insert_by_count: "set (insert_by_count g hs) = insert g (set hs)"
  by (induction hs) auto



lemma sorted_insert_by_count:
  "sorted_wrt (\<lambda>a b. snd b \<le> snd a) hs \<Longrightarrow> sorted_wrt (\<lambda>a b. snd b \<le> snd a) (insert_by_count g hs)"
  by (induction hs) (auto simp: set_insert_by_count)

lemma tag_groups_sorted: "sorted_wrt (\<lambda>a b. snd b \<le> snd a) (tag_groups rs)"
proof -
  have "sorted_wrt (\<lambda>a b. snd b \<le> snd a) (foldr insert_by_count gs [])" for gs
    by (induction gs) (auto simp: sorted_insert_by_count)
  then show ?thesis
    by (simp add: tag_groups_def Let_def sorted_wrt_take)
qed




section \<open>Properties of the extractor\<close>

lemma select_content_None: "select_content s sels = None \<longleftrightarrow>
     (\<forall>sel \<in> set sels. \<forall>c. select_one_text s sel = Some c \<longrightarrow> length c \<le> 200)"
  by (induction sels) (auto split: option.splits)

lemma select_content_first:
  "select_content s sels =
     first_over_200 (concat (map (\<lambda>sel. case select_one_text s sel of None \<Rightarrow> [] | Some c \<Rightarrow> [c]) sels))"
  by (induction sels) (auto simp: first_over_200_def split: option.splits list.splits)

lemma first_over_200_append:
  "first_over_200 (xs @ ys) = (case first_over_200 xs of Some c \<Rightarrow> Some c | None \<Rightarrow> first_over_200 ys)"
  by (induction xs) (auto simp: first_over_200_def split: list.splits)

lemma first_over_200_Cons:
  "first_over_200 (x # ys) = (if 200 < length x then Some x else first_over_200 ys)"
  by (simp add: first_over_200_def)

lemma first_over_200_Nil: "first_over_200 [] = None"
  by (simp add: first_over_200_def)

lemma first_over_200_candidates:
  "first_over_200 (body_candidates s) =
     (case select_content s content_selectors of
        Some c \<Rightarrow> Some c
      | None \<Rightarrow> if 200 < length (join '' '' (long_paragraphs s)) then Some (join '' '' (long_paragraphs s))
                 else (case body_text s of None \<Rightarrow> None
                       | Some c \<Rightarrow> if 200 < length c then Some c else None))"
  by (simp add: body_candidates_def first_over_200_append select_content_first long_paragraphs_def
      first_over_200_Cons first_over_200_Nil split: option.splits)

lemma long_paragraphs_nonempty: "long_paragraphs s \<noteq> [] \<Longrightarrow> paragraphs s \<noteq> []"
  by (auto simp: long_paragraphs_def)

lemma join_Nil_short: "long_paragraphs s = [] \<Longrightarrow> \<not> 200 < length (join '' '' (long_paragraphs s))"
  by simp

text \<open>
  Claim C7, amended. The strategies are tried in the order of the claim, and strategies 1
  and 3 require more than 200 characters, but strategy 2 has its own threshold: when no
  selector gives more than 200 characters and at least one paragraph has more than 50, the
  paragraphs longer than 50 characters joined by single spaces are returned whatever the
  length of the result. In every other case the result is the first candidate that
  exceeds 200 characters. \<open>None\<close> is returned exactly when no selector candidate exceeds
  200 characters, no paragraph exceeds 50, and the body text, if any, does not exceed 200.
\<close>

theorem extract_main_content_selection:
  "(no_long_selection s \<and> long_paragraphs s \<noteq> [] \<and> length (join '' '' (long_paragraphs s)) \<le> 200
       \<longrightarrow> extract_main_content s = Some (join '' '' (long_paragraphs s)))
   \<and> (\<not> (no_long_selection s \<and> long_paragraphs s \<noteq> [] \<and> length (join '' '' (long_paragraphs s)) \<le> 200)
       \<longrightarrow> extract_main_content s = first_over_200 (body_candidates s))
   \<and> (extract_main_content s = None \<longleftrightarrow>
         no_long_selection s \<and> long_paragraphs s = []
         \<and> (\<forall>c. body_text s = Some c \<longrightarrow> length c \<le> 200))"
proof (cases "select_content s content_selectors")
  case (Some c0)
  then have "\<not> no_long_selection s"
    using select_content_None [of s content_selectors] by (simp add: no_long_selection_def)
  with Some show ?thesis
    by (simp add: extract_main_content_def first_over_200_candidates)
next
  case None
  then have n: "no_long_selection s"
    using select_content_None [of s content_selectors] by (simp add: no_long_selection_def)
  show ?thesis
  proof (cases "long_paragraphs s = []")
    case True
    then have "filter (\<lambda>text. 50 < length text) (paragraphs s) = []"
      by (simp add: long_paragraphs_def)
    with None True n show ?thesis
      by (auto simp: extract_main_content_def Let_def first_over_200_candidates split: option.splits)
  next
    case False
    then have "filter (\<lambda>text. 50 < length text) (paragraphs s) \<noteq> []" "paragraphs s \<noteq> []"
      by (auto simp: long_paragraphs_def)
    with None False n show ?thesis
      by (auto simp: extract_main_content_def Let_def first_over_200_candidates long_paragraphs_def)
  qed
qed

text \<open>
  Claim C7 as stated fails: a page whose only text is one paragraph of 51 characters has
  no candidate longer than 200 characters, and the paragraph is returned all the same.
\<close>

theorem extract_main_content_counterexample:
  "extract_main_content (paragraph_soup [''The quick brown fox jumps over the lazy dog. Again!''] [])
     = Some ''The quick brown fox jumps over the lazy dog. Again!''
   \<and> length ''The quick brown fox jumps over the lazy dog. Again!'' = 51
   \<and> first_over_200 (body_candidates (paragraph_soup [''The quick brown fox jumps over the lazy dog. Again!''] [])) = None"
  by (simp add: extract_main_content_def paragraph_soup_def content_selectors_def body_candidates_def first_over_200_def)

text \<open>The amended claim at that page, and at a page with one short paragraph.\<close>

theorem extract_main_content_selection_witness:
  "no_long_selection (paragraph_soup [''The quick brown fox jumps over the lazy dog. Again!''] [])
   \<and> long_paragraphs (paragraph_soup [''The quick brown fox jumps over the lazy dog. Again!''] []) \<noteq> []
   \<and> extract_main_content (paragraph_soup [''The quick brown fox jumps over the lazy dog. Again!''] [])
      = Some ''The quick brown fox jumps over the lazy dog. Again!''
   \<and> \<not> (long_paragraphs (paragraph_soup [''short''] []) \<noteq> [])
   \<and> extract_main_content (paragraph_soup [''short''] []) = None"
  using extract_main_content_selection [of "paragraph_soup [''The quick brown fox jumps over the lazy dog. Again!''] []"]
        extract_main_content_selection [of "paragraph_soup [''short''] []"]
  by (simp add: no_long_selection_def long_paragraphs_def paragraph_soup_def
      body_candidates_def first_over_200_def content_selectors_def)

lemma extract_content_Some:
  "extract_content env u s html = Some d \<Longrightarrow>
     \<exists>c. extract_main_content s = Some c \<and> c \<noteq> [] \<and> content d = Some c
          \<and> content_hash d = Some (hash_content c)"
  by (auto simp: extract_content_def Let_def split: option.splits if_splits)

text \<open>
  Claim C3, amended. For every document that \<open>extract_content\<close> produces, \<open>content_hash\<close> is
  the MD5 hex digest of the UTF-8 encoding of the extracted body exactly as it is stored
  in \<open>content\<close>: no whitespace is collapsed, no case folded and no character removed.
\<close>

theorem content_hash_is_md5_of_raw_content:
  assumes "extract_content env u s html = Some d"
  shows "\<exists>c. content d = Some c \<and> extract_main_content s = Some c
             \<and> content_hash d = Some (md5_hexdigest (encode c))"
  using extract_content_Some [OF assms] by (auto simp: hash_content_def)

lemma extract_content_defined:
  "extract_main_content s = Some c \<Longrightarrow> c \<noteq> [] \<Longrightarrow> \<exists>d. extract_content env u s html = Some d"
  by (simp add: extract_content_def Let_def)

text \<open>The amended claim at the page with one paragraph of 51 characters.\<close>

theorem content_hash_is_md5_of_raw_content_witness:
  "\<exists>d c. extract_content unreachable_web
            ''http://a.com/blog/1''
            (paragraph_soup [''The quick brown fox jumps over the lazy dog. Again!''] []) [] = Some d
     \<and> content d = Some c
     \<and> c = ''The quick brown fox jumps over the lazy dog. Again!''
     \<and> content_hash d = Some (md5_hexdigest (encode c))"
proof -
  have m: "extract_main_content (paragraph_soup [''The quick brown fox jumps over the lazy dog. Again!''] [])
      = Some ''The quick brown fox jumps over the lazy dog. Again!''"
    by (simp add: extract_main_content_def paragraph_soup_def content_selectors_def)
  then obtain d where h: "extract_content unreachable_web
            ''http://a.com/blog/1''
            (paragraph_soup [''The quick brown fox jumps over the lazy dog. Again!''] []) [] = Some d"
    using extract_content_defined by blast
  from content_hash_is_md5_of_raw_content [OF h] m h show ?thesis by auto
qed

text \<open>
  Claim C3 as stated fails: the extractor hashes the raw body. For the body
  \<open>The quick brown fox jumps over the lazy dog. Again!\<close> the stored hash is the MD5 of that
  text, while the MD5 of the normalized text (lower case) is another digest.
\<close>

theorem content_hash_normalized_counterexample:
  "map_option content_hash
     (extract_content unreachable_web
        ''http://a.com/blog/1''
        (paragraph_soup [''The quick brown fox jumps over the lazy dog. Again!''] []) [])
     = Some (Some ''28c93801a209c24ccc0ed032f2e251b5'')
   \<and> generate_content_hash ''The quick brown fox jumps over the lazy dog. Again!''
     = ''c54edcb567473ce28bd4e951cafcb5a1''"
  by code_simp

section \<open>Properties of the crawl loop\<close>

lemma is_crawled_redis: "redis_crawled_urls (snd (is_crawled v um)) = redis_crawled_urls um"
  by (simp add: is_crawled_def Let_def)

lemma is_crawled_queue2: "crawl_queue (snd (is_crawled v um)) = crawl_queue um"
  by (simp add: is_crawled_def Let_def)

lemma fetch_fails_None: "fetch_fails env v \<Longrightarrow> fetch_page env v = None"
  by (auto simp: fetch_fails_def fetch_page_def split: fetch_outcome.splits)

lemma crawl_page_no_page:
  "fetch_page env v = None \<or> fetch_page env v = Some [] \<Longrightarrow>
     crawl_page env v c = c \<lparr> manager := snd (is_crawled v (manager c)) \<rparr>"
  by (auto simp: crawl_page_def split: prod.splits bool.splits)

text \<open>
  Claim C1, amended. Let \<open>u\<close> be the URL that the loop takes from the frontier, and let its
  fetch fail (timeout, transport error, status other than 200, or a content type that is
  not HTML). Then the pass of the loop counts the page and continues, and \<open>_crawl_page\<close> has
  returned right after the fetch: the URL is not marked, the Redis set of crawled hashes
  is what it was before the pass, and the queue is what the dequeue left, without \<open>u\<close>.
\<close>

theorem failed_fetch_leaves_url_unmarked:
  assumes "get_next_url (manager c) = (Some u, um1)"
      and "u \<noteq> []"
      and "fetch_fails env u"
  shows "crawl_iteration env c
           = Some (c \<lparr> manager := snd (is_crawled u um1), crawled_count := crawled_count c + 1 \<rparr>)
       \<and> redis_crawled_urls (snd (is_crawled u um1)) = redis_crawled_urls (manager c)
       \<and> crawl_queue (snd (is_crawled u um1)) = crawl_queue um1
       \<and> u \<notin> queued um1"
proof -
  from assms(3) have f: "fetch_page env u = None" by (rule fetch_fails_None)
  from assms(1) have r: "redis_crawled_urls um1 = redis_crawled_urls (manager c)"
    by (auto simp: get_next_url_def split: option.splits prod.splits)
  have p: "crawl_page env u (c \<lparr> manager := um1 \<rparr>) = c \<lparr> manager := snd (is_crawled u um1) \<rparr>"
    using crawl_page_no_page [of env u "c \<lparr> manager := um1 \<rparr>"] f by simp
  from assms(1) obtain pr where z: "zpopmax (crawl_queue (manager c)) = Some ((u, pr), crawl_queue um1)"
    by (auto simp: get_next_url_def split: option.splits prod.splits)
  then have "crawl_queue um1 = filter (\<lambda>x. fst x \<noteq> u) (crawl_queue (manager c))"
    by (cases "crawl_queue (manager c)") (auto simp: zpopmax_def Let_def)
  then have q: "u \<notin> queued um1" by (auto simp: queued_def)
  from assms(1,2) p r q show ?thesis
    by (simp add: crawl_iteration_def Let_def is_crawled_redis is_crawled_queue2)
qed

text \<open>
  Claim C1 as stated fails: with one seed whose fetch gives status 500 the crawl ends
  with one page counted and an empty crawled set, and a later \<open>add_url\<close> of the same URL
  puts it into the queue again.
\<close>

theorem failed_fetch_counterexample:
  "redis_crawled_urls (manager (crawl
      (status_web 500)
      (new_crawler (new_url_manager [(''http://a.com/blog/1'', 10)] {}) (table_of [])))) = {}
   \<and> crawled_count (crawl
      (status_web 500)
      (new_crawler (new_url_manager [(''http://a.com/blog/1'', 10)] {}) (table_of []))) = 1
   \<and> crawl_queue (snd (add_url ''http://a.com/blog/1'' 1 (manager (crawl
      (status_web 500)
      (new_crawler (new_url_manager [(''http://a.com/blog/1'', 10)] {}) (table_of []))))))
     = [(''http://a.com/blog/1'', 1)]"
  by code_simp











text \<open>The amended claim at the crawler of the counterexample.\<close>

theorem failed_fetch_leaves_url_unmarked_witness:
  "get_next_url (manager (new_crawler (new_url_manager [(''http://a.com/blog/1'', 10)] {}) (table_of [])))
     = (Some ''http://a.com/blog/1'', new_url_manager [] {})
   \<and> fetch_fails (status_web 500)
         ''http://a.com/blog/1''
   \<and> crawl_iteration (status_web 500)
         (new_crawler (new_url_manager [(''http://a.com/blog/1'', 10)] {}) (table_of []))
       = Some ((new_crawler (new_url_manager [(''http://a.com/blog/1'', 10)] {}) (table_of []))
                 \<lparr> manager := snd (is_crawled ''http://a.com/blog/1'' (new_url_manager [] {})),
                   crawled_count := 1 \<rparr>)
   \<and> redis_crawled_urls (snd (is_crawled ''http://a.com/blog/1'' (new_url_manager [] {}))) = {}"
proof -
  have g: "get_next_url (manager (new_crawler (new_url_manager [(''http://a.com/blog/1'', 10)] {}) (table_of [])))
     = (Some ''http://a.com/blog/1'', new_url_manager [] {})"
    by (simp add: get_next_url_def new_crawler_def new_url_manager_def zpopmax_def)
  have n: "''http://a.com/blog/1'' \<noteq> []" by simp
  have f: "fetch_fails (status_web 500)
         ''http://a.com/blog/1''"
    by (simp add: fetch_fails_def status_web_def static_web_def)
  from failed_fetch_leaves_url_unmarked [OF g n f] g f show ?thesis
    by (simp add: new_crawler_def new_url_manager_def)
qed

section \<open>Properties of URL normalization\<close>


lemma rstrip_Nil [simp]: "rstrip p [] = []"
  by (simp add: rstrip_def)

















































































end
